theory Spec2Isabelle
  imports Main
begin

section \<open>Buffer file names\<close>

subsection \<open>Numbers as decimal text\<close>

text \<open>
  \<open>[y, m, d].join('-')\<close> turns each number into its decimal text. The three numbers are
  integers (\<open>getFullYear\<close> may be negative, the other two are not).
\<close>

definition digit_chr :: "nat \<Rightarrow> char" where
  "digit_chr n = ''0123456789'' ! n"

fun nat_str :: "nat \<Rightarrow> string" where
  "nat_str n = (if n < 10 then [digit_chr n] else nat_str (n div 10) @ [digit_chr (n mod 10)])"

declare nat_str.simps [simp del]

definition num_str :: "int \<Rightarrow> string" where
  "num_str i = (if i < 0 then CHR ''-'' # nat_str (nat (- i)) else nat_str (nat i))"

fun join :: "string \<Rightarrow> string list \<Rightarrow> string" where
  "join sep [] = []"
| "join sep [x] = x"
| "join sep (x # y # ys) = x @ sep @ join sep (y # ys)"

subsection \<open>dateFormat\<close>

text \<open>
  What the code reads of a \<open>Date\<close>: the local year, the month counted from 0 and the day
  of the month.
\<close>

record local_date =
  getFullYear :: int
  getMonth :: nat
  getDate :: nat

text \<open>The argument is \<open>None\<close> when the value passed is not a \<open>Date\<close>.\<close>

definition dateFormat :: "local_date option \<Rightarrow> string" where
  "dateFormat date =
     (case date of
        None \<Rightarrow> ''''
      | Some d \<Rightarrow> join ''-'' [num_str (getFullYear d), num_str (int (getMonth d + 1)),
                              num_str (int (getDate d))])"

text \<open>
  \<open>saveLocal\<close> appends to the file \<open>dateFormat(new Date) + '.log'\<close> of the buffer
  directory.
\<close>

definition saveLocal_name :: "local_date \<Rightarrow> string" where
  "saveLocal_name now = dateFormat (Some now) @ ''.log''"

subsection \<open>The file name pattern of local2Remote\<close>

text \<open>
  The pattern is \<open>/^\d{4}-(0?[1-9]|1[0-2])-(0?[1-9]|[1-2]\d|3[0-1]).log$/ig\<close>. It uses
  classes of characters, sequence, alternation and the option \<open>?\<close> only. A class is the
  predicate of the characters it accepts.
\<close>

datatype rexp =
  Eps
  | Sym "char \<Rightarrow> bool"
  | Seq rexp rexp
  | Alt rexp rexp

text \<open>
  A backtracking matcher: \<open>rmatch r s\<close> lists what is left of \<open>s\<close> after each way
  of matching \<open>r\<close> at its start, the first alternative first.
\<close>

fun rmatch :: "rexp \<Rightarrow> string \<Rightarrow> string list" where
  "rmatch Eps s = [s]"
| "rmatch (Sym p) [] = []"
| "rmatch (Sym p) (c # s) = (if p c then [s] else [])"
| "rmatch (Seq a b) s = concat (map (rmatch b) (rmatch a s))"
| "rmatch (Alt a b) s = rmatch a s @ rmatch b s"

text \<open>Between \<open>^\<close> and \<open>$\<close> (no \<open>m\<close> flag) the whole string has to be consumed.\<close>

definition matches :: "rexp \<Rightarrow> string \<Rightarrow> bool" where
  "matches r s = ([] \<in> set (rmatch r s))"

definition one_of :: "string \<Rightarrow> rexp" where
  "one_of cs = Sym (\<lambda>c. c \<in> set cs)"

text \<open>\<open>\d\<close>, and \<open>x?\<close> (greedy: with \<open>x\<close> first).\<close>

definition digit :: rexp where
  "digit = one_of ''0123456789''"

definition opt :: "rexp \<Rightarrow> rexp" where
  "opt r = Alt r Eps"

text \<open>
  The dot before \<open>log\<close> is not escaped in the code: it accepts any character but a line
  terminator.
\<close>

definition any_chr :: rexp where
  "any_chr = Sym (\<lambda>c. c \<noteq> CHR 0x0A \<and> c \<noteq> CHR 0x0D)"

definition seqs :: "rexp list \<Rightarrow> rexp" where
  "seqs rs = foldr Seq rs Eps"

definition month_re :: rexp where
  "month_re = Alt (Seq (opt (one_of ''0'')) (one_of ''123456789''))
                  (Seq (one_of ''1'') (one_of ''012''))"

definition day_re :: rexp where
  "day_re = Alt (Seq (opt (one_of ''0'')) (one_of ''123456789''))
             (Alt (Seq (one_of ''12'') digit)
                  (Seq (one_of ''3'') (one_of ''01'')))"

text \<open>With the flag \<open>i\<close> the letters of \<open>log\<close> match in either case.\<close>

definition date_re :: rexp where
  "date_re = seqs [digit, digit, digit, digit, one_of ''-'', month_re, one_of ''-'', day_re,
                   any_chr, one_of ''lL'', one_of ''oO'', one_of ''gG'']"

text \<open>\<open>fileName.match(...)\<close> is truthy exactly when there is a match.\<close>

definition name_ok :: "string \<Rightarrow> bool" where
  "name_ok fileName = matches date_re fileName"

section \<open>Values of the host language\<close>

text \<open>
  What can be thrown: an \<open>Error\<close> with its message, a \<open>TypeError\<close> of the runtime, a
  failure of the file system, a failure of the remote store, and a value thrown by a
  callback of the host application, of which the code reads the truthiness and the numeric
  property \<open>status\<close> (0 when it has none).
\<close>

datatype exn =
  Error string
  | TypeError
  | IOError
  | RemoteError
  | Thrown bool int

fun truthy :: "exn \<Rightarrow> bool" where
  "truthy (Thrown t s) = t"
| "truthy _ = True"

fun status_of :: "exn \<Rightarrow> int" where
  "status_of (Thrown t s) = s"
| "status_of _ = 0"

text \<open>
  A request or response body, as far as the code looks at it: a falsy value, a truthy value
  with the text \<open>JSON.stringify\<close> gives for it, or a truthy value for which
  \<open>JSON.stringify\<close> gives no text (it throws, or returns \<open>undefined\<close>, whose
  \<open>length\<close> throws). The empty object is \<open>Json ''{}''\<close>. The length of the text
  is its number of characters, as \<open>.length\<close> counts them.
\<close>

datatype body =
  Falsy
  | Json string
  | NoJson

text \<open>\<open>toLowerCase\<close>, on the letters of ASCII (it is applied to the HTTP method).\<close>

definition lower_chr :: "char \<Rightarrow> char" where
  "lower_chr c =
     (case map_of (zip ''ABCDEFGHIJKLMNOPQRSTUVWXYZ'' ''abcdefghijklmnopqrstuvwxyz'') c of
        None \<Rightarrow> c
      | Some l \<Rightarrow> l)"

definition toLowerCase :: "string \<Rightarrow> string" where
  "toLowerCase s = map lower_chr s"

section \<open>The event record\<close>

record origin_request =
  req_url :: string
  req_method :: string
  req_userAgent :: string
  req_body :: body

record origin_response =
  res_statusCode :: int
  res_body :: body

text \<open>
  \<open>optData\<close> after the first \<open>Object.assign\<close> (at the start of the request), and after
  the second one (when the downstream handler is over). \<open>None\<close> is \<open>null\<close>.
\<close>

record opt_start =
  resource :: "string option"
  operation :: string
  ip :: string
  status :: int
  createdAt :: int
  originRequest :: origin_request

record opt_data = opt_start +
  userId :: "string option"
  originResponse :: origin_response

text \<open>
  The own properties of the finished \<open>optData\<close>: the two \<open>Object.assign\<close> calls define
  all eight of them, whatever their values.
\<close>

definition own_keys :: "string list" where
  "own_keys = [''resource'', ''operation'', ''ip'', ''status'', ''createdAt'', ''originRequest'',
               ''userId'', ''originResponse'']"

definition hasOwnProperty :: "opt_data \<Rightarrow> string \<Rightarrow> bool" where
  "hasOwnProperty optData key = (key \<in> set own_keys)"

section \<open>The world around the engine\<close>

text \<open>The koa context; \<open>ctx_state\<close> is whatever else the callbacks read from it.\<close>

record 'c ctx =
  ctx_url :: string
  ctx_method :: string
  ctx_ip :: string
  ctx_userAgent :: "string option"
  ctx_request_body :: body
  ctx_body :: body
  ctx_status :: int
  ctx_state :: 'c

record file_stat =
  size_st :: int
  birthtime :: int

text \<open>
  What the reader of a buffer file and the remote store make happen while the promise of
  \<open>local2Remote\<close> for that file is alive, in the order the handlers run: a line, a read
  error, the end of the file, and the fulfilment or rejection of a \<open>dbSaver.push\<close>.
\<close>

text \<open>
  What \<open>JSON.parse\<close> does with a line: it throws; it returns a value that is not an object
  (\<open>null\<close>, a number, a string, a boolean); or it returns an object, which is given here
  with its \<open>createdAt\<close> made a \<open>Date\<close> again.
\<close>

datatype 'o parsed =
  Malformed
  | NonObject
  | Object 'o

datatype event =
  Line string
  | ReadError
  | End
  | PushOk
  | PushFail

text \<open>
  The answers of the file system, the clock, \<open>JSON.parse\<close> and the remote store.
  \<open>io_now f\<close> is the clock when \<open>checkStatus\<close> examines the file \<open>f\<close>;
  \<open>io_parse l\<close> is what \<open>JSON.parse\<close> does with the line \<open>l\<close>;
  \<open>io_events f\<close> is what happens while the file \<open>f\<close> is read.
\<close>

record 'o io =
  io_today :: local_date
  io_append :: "string \<Rightarrow> exn option"
  io_list_check :: "exn + string list"
  io_stat :: "string \<Rightarrow> exn + file_stat"
  io_now :: "string \<Rightarrow> int"
  io_list_drain :: "exn + string list"
  io_parse :: "string \<Rightarrow> 'o parsed"
  io_events :: "string \<Rightarrow> event list"
  io_unlink :: "string \<Rightarrow> exn option"

section \<open>The engine\<close>

text \<open>A value of the strictness map: a boolean, or anything else.\<close>

datatype js_val =
  Bool bool
  | Other

text \<open>
  The fields of \<open>this\<close>. A callback resolves to a string or to nothing (\<open>None\<close>:
  \<open>undefined\<close> or \<open>null\<close>), or it throws. \<open>submitting\<close> is the property that \<open>submit\<close>
  creates; it does not exist before (\<open>False\<close> here).
\<close>

record 'c restlog =
  getUserId :: "'c ctx \<Rightarrow> exn + string option"
  getResource :: "'c ctx \<Rightarrow> exn + string option"
  localPath :: string
  filter_cb :: "(string \<Rightarrow> string \<Rightarrow> bool) option"
  bodySizeLimit :: nat
  strictObj :: "(string \<times> js_val) list"
  filesLimit :: int
  fileSizeLimit :: int
  fileExpireTime :: int
  intervalTime :: int
  onSubmitting :: bool
  submitting :: bool

subsection \<open>The constructor\<close>

record db_saver =
  dbClient :: bool
  collectionName :: "string option"

record upload_condition =
  uc_filesLimit :: "int option"
  uc_fileSizeLimit :: "int option"
  uc_fileExpireTime :: "int option"
  uc_intervalTime :: "int option"

text \<open>
  The options: a callback is \<open>None\<close> when the option is not a function, \<open>opt_dbSaver\<close> is
  \<open>None\<close> when it is not given, \<open>dbClient\<close> says whether a client is there (truthy).
  \<open>opt_uploadCondition\<close> is \<open>None\<close> when \<open>null\<close> is passed for it; when the option is
  not given, it is the empty object of the default, with no limit in it.
\<close>

record 'c opts =
  opt_getUserId :: "('c ctx \<Rightarrow> exn + string option) option"
  opt_getResource :: "('c ctx \<Rightarrow> exn + string option) option"
  opt_localPath :: "string option"
  opt_filter :: "(string \<Rightarrow> string \<Rightarrow> bool) option"
  opt_dbSaver :: "db_saver option"
  opt_strict :: "(string \<times> js_val) list"
  opt_uploadCondition :: "upload_condition option"

text \<open>
  \<open>x || d\<close> on a number: \<open>d\<close> when \<open>x\<close> is missing or 0. The limits are whole numbers
  (of files, kilobytes and seconds).
\<close>

definition or_default :: "int option \<Rightarrow> int \<Rightarrow> int" where
  "or_default x d = (case x of None \<Rightarrow> d | Some n \<Rightarrow> if n = 0 then d else n)"

text \<open>
  What the constructor meets outside the options: the directory of the module
  (\<open>__dirname\<close>), what building the \<open>MongodbSaver\<close> throws, if anything, and what
  \<open>mkdirpSync\<close> throws on the buffer directory, if anything.
\<close>

record construction =
  dirname :: string
  new_saver :: "exn option"
  mkdirp :: "exn option"

text \<open>
  The constructor, statement by statement: its own \<open>throw\<close>s; the \<open>TypeError\<close> of taking
  \<open>dbClient\<close> out of a \<open>dbSaver\<close> that is not there; the \<open>MongodbSaver\<close>; the
  \<open>TypeError\<close> of reading a limit from an upload condition that is \<open>null\<close>; and the buffer
  directory. The default path is \<open>pathJoin(__dirname, '../../data')\<close>, written here before
  \<open>..\<close> is resolved. The timer that \<open>setInterval\<close> starts calls \<open>submit()\<close> every
  \<open>intervalTime\<close> milliseconds.
\<close>

definition constructor :: "'c opts \<Rightarrow> construction \<Rightarrow> exn + 'c restlog" where
  "constructor opts env =
     (case opt_getUserId opts of
        None \<Rightarrow> Inl (Error ''must give a function to get userId'')
      | Some gu \<Rightarrow>
     (case opt_getResource opts of
        None \<Rightarrow> Inl (Error ''must give a function to get Resource'')
      | Some gr \<Rightarrow>
     (case opt_dbSaver opts of
        None \<Rightarrow> Inl TypeError
      | Some db \<Rightarrow>
          if \<not> dbClient db then Inl (Error ''no dbClient found'')
          else
     (case new_saver env of
        Some e \<Rightarrow> Inl e
      | None \<Rightarrow>
     (case opt_uploadCondition opts of
        None \<Rightarrow> Inl TypeError
      | Some uc \<Rightarrow>
     (case mkdirp env of
        Some e \<Rightarrow> Inl e
      | None \<Rightarrow>
          Inr \<lparr>getUserId = gu, getResource = gr,
               localPath = (case opt_localPath opts of
                              None \<Rightarrow> dirname env @ ''/../../data''
                            | Some p \<Rightarrow> if p = [] then dirname env @ ''/../../data'' else p),
               filter_cb = opt_filter opts,
               bodySizeLimit = 2048,
               strictObj = opt_strict opts,
               filesLimit = or_default (uc_filesLimit uc) 1,
               fileSizeLimit = or_default (uc_fileSizeLimit uc) 10 * 1024,
               fileExpireTime = or_default (uc_fileExpireTime uc) 10 * 1000,
               intervalTime = or_default (uc_intervalTime uc) 10 * 1000,
               onSubmitting = False,
               submitting = False\<rparr>))))))"

subsection \<open>saveLocal\<close>

text \<open>
  The record is appended as one line to the file of the day; the result is the file and the
  record when the append succeeds.
\<close>

definition saveLocal :: "'o io \<Rightarrow> opt_data \<Rightarrow> exn + string \<times> opt_data" where
  "saveLocal w optData =
     (let file = saveLocal_name (io_today w)
      in case io_append w file of Some e \<Rightarrow> Inl e | None \<Rightarrow> Inr (file, optData))"

subsection \<open>checkStatus\<close>

fun check_files :: "'c restlog \<Rightarrow> 'o io \<Rightarrow> string list \<Rightarrow> exn + bool" where
  "check_files this w [] = Inr False"
| "check_files this w (fileName # files) =
     (case io_stat w fileName of
        Inl e \<Rightarrow> Inl e
      | Inr st \<Rightarrow>
          if size_st st > fileSizeLimit this then Inr True
          else if io_now w fileName - birthtime st \<ge> fileExpireTime this then Inr True
          else check_files this w files)"

definition checkStatus :: "'c restlog \<Rightarrow> 'o io \<Rightarrow> exn + bool" where
  "checkStatus this w =
     (case io_list_check w of
        Inl e \<Rightarrow> Inl e
      | Inr files \<Rightarrow>
          if int (length files) > filesLimit this then Inr True
          else check_files this w files)"

subsection \<open>local2Remote\<close>

text \<open>
  The promise that \<open>local2Remote\<close> awaits for one file. A promise is settled once: the first
  call of \<open>resolve\<close> or \<open>reject\<close> decides, later calls change nothing.
\<close>

datatype promise =
  Pending
  | Resolved
  | Rejected exn

text \<open>
  The promise, and the records handed to \<open>dbSaver.push\<close> so far. \<open>acked\<close> counts the
  pushes that the store has answered with success so far; the code keeps no such count, it
  is here to say what has been delivered at a given moment.
\<close>

record 'o reading =
  settled :: promise
  pushed :: "'o list"
  acked :: nat

definition resolve :: "'o reading \<Rightarrow> 'o reading" where
  "resolve r = (if settled r = Pending then r\<lparr>settled := Resolved\<rparr> else r)"

definition reject :: "exn \<Rightarrow> 'o reading \<Rightarrow> 'o reading" where
  "reject e r = (if settled r = Pending then r\<lparr>settled := Rejected e\<rparr> else r)"

text \<open>
  The handlers. On a line: an empty line resolves; a line on which \<open>JSON.parse\<close> throws is
  left out; a parsed object is pushed, and the push will call \<open>resolve\<close> or \<open>reject\<close> when
  the store answers (the events \<open>PushOk\<close> and \<open>PushFail\<close>). When \<open>JSON.parse\<close> returns a
  value that is not an object, the assignment to its \<open>createdAt\<close>, which stands after the
  \<open>try\<close>, throws a \<open>TypeError\<close>: it leaves the handler, the reader passes it to the handler
  of \<open>error\<close>, and that one rejects.
\<close>

fun handle :: "(string \<Rightarrow> 'o parsed) \<Rightarrow> 'o reading \<Rightarrow> event \<Rightarrow> 'o reading" where
  "handle parse r (Line line) =
     (if line = [] then resolve r
      else case parse line of
             Malformed \<Rightarrow> r
           | NonObject \<Rightarrow> reject TypeError r
           | Object obj \<Rightarrow> r\<lparr>pushed := pushed r @ [obj]\<rparr>)"
| "handle parse r PushOk = resolve (r\<lparr>acked := acked r + 1\<rparr>)"
| "handle parse r PushFail = reject RemoteError r"
| "handle parse r ReadError = reject IOError r"
| "handle parse r End = resolve r"

text \<open>All that the handlers do for a file, also after the promise is settled.\<close>

definition read_file :: "(string \<Rightarrow> 'o parsed) \<Rightarrow> event list \<Rightarrow> 'o reading" where
  "read_file parse evs = foldl (handle parse) \<lparr>settled = Pending, pushed = [], acked = 0\<rparr> evs"

text \<open>
  What the handlers have done when the promise is settled: there the \<open>await\<close> of
  \<open>local2Remote\<close> returns or throws, and what comes later is handled while \<open>local2Remote\<close>
  goes on. (The answer of a push, the end of the file and a read error are handled each
  in a turn of its own, so that nothing comes between them and the return of the \<open>await\<close>.)
\<close>

fun until_settled :: "(string \<Rightarrow> 'o parsed) \<Rightarrow> 'o reading \<Rightarrow> event list \<Rightarrow> 'o reading" where
  "until_settled parse r [] = r"
| "until_settled parse r (ev # evs) =
     (if settled (handle parse r ev) = Pending then until_settled parse (handle parse r ev) evs
      else handle parse r ev)"

definition at_await :: "'o io \<Rightarrow> string \<Rightarrow> 'o reading" where
  "at_await w fileName =
     until_settled (io_parse w) \<lparr>settled = Pending, pushed = [], acked = 0\<rparr> (io_events w fileName)"

text \<open>
  How a call of \<open>local2Remote\<close> ends: it returns, it throws, or it waits for ever for a
  promise that nothing settles.
\<close>

datatype ending =
  Returned
  | Threw exn
  | Waiting

text \<open>
  What a call has done: the files it has deleted, and for each file it has read the records
  its handlers have pushed.
\<close>

record 'o drained =
  deleted :: "string list"
  sent :: "(string \<times> 'o list) list"

fun drain_files :: "'o io \<Rightarrow> string list \<Rightarrow> 'o drained \<Rightarrow> ending \<times> 'o drained" where
  "drain_files w [] d = (Returned, d)"
| "drain_files w (fileName # files) d =
     (if \<not> name_ok fileName then (Returned, d)
      else
        let r = read_file (io_parse w) (io_events w fileName);
            d1 = d\<lparr>sent := sent d @ [(fileName, pushed r)]\<rparr>
        in case settled (at_await w fileName) of
             Pending \<Rightarrow> (Waiting, d1)
           | Rejected e \<Rightarrow> (Threw e, d1)
           | Resolved \<Rightarrow>
               (case io_unlink w fileName of
                  Some e \<Rightarrow> (Threw e, d1)
                | None \<Rightarrow> drain_files w files (d1\<lparr>deleted := deleted d1 @ [fileName]\<rparr>)))"

definition local2Remote :: "'o io \<Rightarrow> ending \<times> 'o drained" where
  "local2Remote w =
     (case io_list_drain w of
        Inl e \<Rightarrow> (Returned, \<lparr>deleted = [], sent = []\<rparr>)
      | Inr files \<Rightarrow> drain_files w files \<lparr>deleted = [], sent = []\<rparr>)"

subsection \<open>submit\<close>

text \<open>
  The body of \<open>submit\<close> is an asynchronous function: it runs until an \<open>await\<close>, and goes on
  when the awaited promise is settled; other calls of \<open>submit\<close> run in between. \<open>pc\<close> says
  where a call stands: at \<open>await saveLocal\<close>, at \<open>await checkStatus\<close>, at
  \<open>await local2Remote\<close>, or at its end.
\<close>

datatype pc =
  AwaitSave opt_data
  | AwaitStatus
  | AwaitDrain
  | Over

text \<open>The test of the flag, up to the call of \<open>checkStatus\<close>. The \<open>return\<close> leaves the function.\<close>

definition submit_flag :: "'c restlog \<Rightarrow> 'c restlog \<times> pc" where
  "submit_flag this = (if onSubmitting this then (this, Over) else (this, AwaitStatus))"

text \<open>From the call to the first \<open>await\<close>.\<close>

definition submit_start :: "'c restlog \<Rightarrow> opt_data option \<Rightarrow> 'c restlog \<times> pc" where
  "submit_start this optData =
     (case optData of Some d \<Rightarrow> (this, AwaitSave d) | None \<Rightarrow> submit_flag this)"

text \<open>
  When \<open>saveLocal\<close> is over: an exception goes to the \<open>catch\<close>, and then to the assignment
  that ends the function.
\<close>

definition resume_save :: "'c restlog \<Rightarrow> exn option \<Rightarrow> 'c restlog \<times> pc" where
  "resume_save this thrown =
     (case thrown of
        Some e \<Rightarrow> (this\<lparr>onSubmitting := False\<rparr>, Over)
      | None \<Rightarrow> submit_flag this)"

text \<open>When \<open>checkStatus\<close> is over.\<close>

definition resume_status :: "'c restlog \<Rightarrow> exn + bool \<Rightarrow> 'c restlog \<times> pc" where
  "resume_status this checked =
     (case checked of
        Inl e \<Rightarrow> (this\<lparr>onSubmitting := False\<rparr>, Over)
      | Inr st \<Rightarrow>
          if st then (this\<lparr>submitting := True\<rparr>, AwaitDrain)
          else (this\<lparr>onSubmitting := False\<rparr>, Over))"

text \<open>When \<open>local2Remote\<close> has returned or thrown.\<close>

definition resume_drain :: "'c restlog \<Rightarrow> 'c restlog \<times> pc" where
  "resume_drain this = (this\<lparr>onSubmitting := False\<rparr>, Over)"

text \<open>
  A whole call of \<open>submit\<close>, with nothing in between: the engine afterwards, where the call
  stands (\<open>Over\<close>, or \<open>AwaitDrain\<close> for ever), what was appended, what the drain did, and
  the exception that the \<open>catch\<close> has met and logged, if any.
\<close>

record ('c, 'o) submitted =
  engine :: "'c restlog"
  stands :: pc
  appended :: "(string \<times> opt_data) option"
  drain :: "(ending \<times> 'o drained) option"
  logged :: "exn option"

definition submit_check ::
  "'c restlog \<Rightarrow> 'o io \<Rightarrow> (string \<times> opt_data) option \<Rightarrow> ('c, 'o) submitted" where
  "submit_check this w app =
     (let checked = checkStatus this w
      in case resume_status this checked of
           (t, AwaitDrain) \<Rightarrow>
             (let dr = local2Remote w
              in if fst dr = Waiting
                 then \<lparr>engine = t, stands = AwaitDrain, appended = app, drain = Some dr,
                       logged = None\<rparr>
                 else \<lparr>engine = fst (resume_drain t), stands = snd (resume_drain t),
                       appended = app, drain = Some dr,
                       logged = (case fst dr of Threw e \<Rightarrow> Some e | _ \<Rightarrow> None)\<rparr>)
         | (t, p) \<Rightarrow>
             \<lparr>engine = t, stands = p, appended = app, drain = None,
              logged = (case checked of Inl e \<Rightarrow> Some e | Inr st \<Rightarrow> None)\<rparr>)"

definition submit :: "'c restlog \<Rightarrow> 'o io \<Rightarrow> opt_data option \<Rightarrow> ('c, 'o) submitted" where
  "submit this w optData =
     (case submit_start this optData of
        (t, AwaitSave d) \<Rightarrow>
          (let saved = saveLocal w d;
               app = (case saved of Inl e \<Rightarrow> None | Inr a \<Rightarrow> Some a);
               thrown = (case saved of Inl e \<Rightarrow> Some e | Inr a \<Rightarrow> None)
           in case resume_save t thrown of
                (t1, AwaitStatus) \<Rightarrow> submit_check t1 w app
              | (t1, p) \<Rightarrow>
                  \<lparr>engine = t1, stands = p, appended = app, drain = None, logged = thrown\<rparr>)
      | (t, AwaitStatus) \<Rightarrow> submit_check t w None
      | (t, p) \<Rightarrow> \<lparr>engine = t, stands = p, appended = None, drain = None, logged = None\<rparr>)"

subsection \<open>The middleware\<close>

text \<open>
  The two places that bound a body (the request's before the handler runs, the response's
  after): a falsy body becomes the empty object, and so does one whose text is too long.
\<close>

definition limitBody :: "nat \<Rightarrow> body \<Rightarrow> exn + body" where
  "limitBody limit b =
     (case (if b = Falsy then Json ''{}'' else b) of
        Json s \<Rightarrow> if length s \<ge> limit then Inr (Json ''{}'') else Inr (Json s)
      | _ \<Rightarrow> Inl TypeError)"

text \<open>The loop over the strictness map: \<open>True\<close> when it reaches its \<open>return\<close>.\<close>

fun strict_return :: "(string \<times> js_val) list \<Rightarrow> opt_data \<Rightarrow> bool" where
  "strict_return [] optData = False"
| "strict_return ((key, strictItem) # rest) optData =
     (if strictItem = Bool True \<and> \<not> hasOwnProperty optData key then True
      else strict_return rest optData)"

text \<open>\<open>x || null\<close> on what a callback resolves to: the empty string is falsy too.\<close>

definition or_null :: "string option \<Rightarrow> string option" where
  "or_null x = (case x of None \<Rightarrow> None | Some v \<Rightarrow> if v = [] then None else Some v)"

text \<open>\<open>err\<close> after the \<open>try\<close>, as a condition: something truthy was caught.\<close>

definition caught :: "exn option \<Rightarrow> bool" where
  "caught err = (case err of None \<Rightarrow> False | Some e \<Rightarrow> truthy e)"

definition statusCode :: "exn option \<Rightarrow> int \<Rightarrow> int" where
  "statusCode err ctx_st =
     (case (if caught err then err else None) of
        Some e \<Rightarrow> if status_of e = 0 then 500 else status_of e
      | None \<Rightarrow> if ctx_st = 0 then 404 else ctx_st)"

text \<open>
  \<open>nxt\<close> is the downstream handler: what it throws, if anything, and the context when it is
  over. \<open>now\<close> is the clock at the first \<open>Object.assign\<close>. The result is what the caller of
  the middleware gets (\<open>None\<close>: it returns; \<open>Some e\<close>: it throws \<open>e\<close>) and, when
  \<open>submit\<close> is called, its argument and what that call does.
\<close>

definition middleware_koa ::
  "'c restlog \<Rightarrow> 'o io \<Rightarrow> int \<Rightarrow> ('c ctx \<Rightarrow> exn option \<times> 'c ctx) \<Rightarrow> 'c ctx
    \<Rightarrow> exn option \<times> (opt_data \<times> ('c, 'o) submitted) option" where
  "middleware_koa this w now nxt ctx =
     (let url = ctx_url ctx; method = toLowerCase (ctx_method ctx) in
      if (case filter_cb this of None \<Rightarrow> False | Some f \<Rightarrow> \<not> f url method)
      then (fst (nxt ctx), None)
      else
      case limitBody (bodySizeLimit this) (ctx_request_body ctx) of
        Inl e \<Rightarrow> (Some e, None)
      | Inr reqBody \<Rightarrow>
      (case getUserId this ctx of
        Inl e \<Rightarrow> (Some e, None)
      | Inr user \<Rightarrow>
      (case getResource this ctx of
        Inl e \<Rightarrow> (Some e, None)
      | Inr found \<Rightarrow>
      (let userId0 = or_null user;
           res = or_null found;
           optData0 = \<lparr>resource = res, operation = method, ip = ctx_ip ctx, status = 0,
                       createdAt = now,
                       originRequest = \<lparr>req_url = url, req_method = method,
                          req_userAgent = (case ctx_userAgent ctx of None \<Rightarrow> ''unknown''
                                           | Some a \<Rightarrow> if a = [] then ''unknown'' else a),
                          req_body = reqBody\<rparr>\<rparr>;
           err = fst (nxt ctx);
           ctx1 = snd (nxt ctx)
       in
       case limitBody (bodySizeLimit this) (ctx_body ctx1) of
         Inl e \<Rightarrow> (Some e, None)
       | Inr resBody \<Rightarrow>
       (case (if userId0 \<noteq> None then Inr userId0 else getUserId this ctx1) of
         Inl e \<Rightarrow> (Some e, None)
       | Inr user1 \<Rightarrow>
       (let uid = (if userId0 \<noteq> None then userId0 else or_null user1);
            optData = \<lparr>resource = resource optData0, operation = operation optData0,
                       ip = ip optData0,
                       status = (if caught err then - 1 else 1),
                       createdAt = createdAt optData0,
                       originRequest = originRequest optData0,
                       userId = uid,
                       originResponse = \<lparr>res_statusCode = statusCode err (ctx_status ctx1),
                                         res_body = resBody\<rparr>\<rparr>
        in
        if strict_return (strictObj this) optData then (None, None)
        else (if caught err then err else None,
              Some (optData, submit this w (Some optData)))))))))"

subsection \<open>Calls of submit that overlap\<close>

text \<open>
  The engine with the calls of \<open>submit\<close> that are under way. A call is made (by a request
  with its record, or by the timer with none); the \<open>saveLocal\<close>, the \<open>checkStatus\<close> or the
  \<open>local2Remote\<close> that the call number \<open>i\<close> awaits is over. An action for a call that is
  not waiting for it changes nothing.
\<close>

datatype action =
  Call "opt_data option"
  | Saved nat "exn option"
  | Checked nat "exn + bool"
  | Drained nat

fun step :: "'c restlog \<times> pc list \<Rightarrow> action \<Rightarrow> 'c restlog \<times> pc list" where
  "step (this, pcs) (Call optData) =
     (fst (submit_start this optData), pcs @ [snd (submit_start this optData)])"
| "step (this, pcs) (Saved i thrown) =
     (if i < length pcs
      then (case pcs ! i of
              AwaitSave d \<Rightarrow> (fst (resume_save this thrown), pcs[i := snd (resume_save this thrown)])
            | _ \<Rightarrow> (this, pcs))
      else (this, pcs))"
| "step (this, pcs) (Checked i checked) =
     (if i < length pcs
      then (case pcs ! i of
              AwaitStatus \<Rightarrow>
                (fst (resume_status this checked), pcs[i := snd (resume_status this checked)])
            | _ \<Rightarrow> (this, pcs))
      else (this, pcs))"
| "step (this, pcs) (Drained i) =
     (if i < length pcs
      then (case pcs ! i of
              AwaitDrain \<Rightarrow> (fst (resume_drain this), pcs[i := snd (resume_drain this)])
            | _ \<Rightarrow> (this, pcs))
      else (this, pcs))"

definition run :: "'c restlog \<Rightarrow> action list \<Rightarrow> 'c restlog \<times> pc list" where
  "run this acts = foldl step (this, []) acts"

text \<open>The number of calls of \<open>local2Remote\<close> that are under way.\<close>

definition draining :: "'c restlog \<times> pc list \<Rightarrow> nat" where
  "draining cfg = count_list (snd cfg) AwaitDrain"

section \<open>What the specification says\<close>

text \<open>
  The flush policy in the words of the specification, over the size and creation time of
  each buffer file and the clock when the file is examined: too many files, or a file that
  is too large, or a file that is too old.
\<close>

definition shouldFlush :: "'c restlog \<Rightarrow> (file_stat \<times> int) list \<Rightarrow> bool" where
  "shouldFlush this stats =
     (int (length stats) > filesLimit this
      \<or> (\<exists>x \<in> set stats. size_st (fst x) > fileSizeLimit this)
      \<or> (\<exists>x \<in> set stats. snd x - birthtime (fst x) \<ge> fileExpireTime this))"

text \<open>One file is over a limit.\<close>

definition over_limit :: "'c restlog \<Rightarrow> file_stat \<Rightarrow> int \<Rightarrow> bool" where
  "over_limit this st now =
     (size_st st > fileSizeLimit this \<or> now - birthtime st \<ge> fileExpireTime this)"

text \<open>
  The records of the lines of a file that are not empty and that parse to an object, in the
  order of the lines.
\<close>

fun records_of :: "(string \<Rightarrow> 'o parsed) \<Rightarrow> event list \<Rightarrow> 'o list" where
  "records_of parse [] = []"
| "records_of parse (Line line # evs) =
     (if line = [] then records_of parse evs
      else case parse line of
             Object obj \<Rightarrow> obj # records_of parse evs
           | _ \<Rightarrow> records_of parse evs)"
| "records_of parse (ev # evs) = records_of parse evs"


text \<open>What a call of the middleware passes to \<open>submit\<close>, and what that call appends.\<close>

definition submitted_record ::
  "exn option \<times> (opt_data \<times> ('c, 'o) submitted) option \<Rightarrow> opt_data option" where
  "submitted_record res = (case snd res of None \<Rightarrow> None | Some ds \<Rightarrow> Some (fst ds))"

definition appended_record ::
  "exn option \<times> (opt_data \<times> ('c, 'o) submitted) option \<Rightarrow> (string \<times> opt_data) option" where
  "appended_record res = (case snd res of None \<Rightarrow> None | Some ds \<Rightarrow> appended (snd ds))"

text \<open>
  A required collaborator (the user callback, the resource callback, the database client)
  is missing from the options.
\<close>

definition collaborator_missing :: "'c opts \<Rightarrow> bool" where
  "collaborator_missing opts =
     (opt_getUserId opts = None \<or> opt_getResource opts = None
      \<or> (case opt_dbSaver opts of None \<Rightarrow> True | Some db \<Rightarrow> \<not> dbClient db))"

section \<open>Scenarios\<close>

text \<open>
  A world on 5 January 2017 in which nothing fails and the buffer directory is empty. In
  it \<open>JSON.parse\<close> throws on the line \<open>junk\<close>, returns \<open>null\<close> for the line \<open>null\<close>,
  and returns for any other line an object that is written as the line itself.
\<close>

definition quiet_world :: "string io" where
  "quiet_world =
     \<lparr>io_today = \<lparr>getFullYear = 2017, getMonth = 0, getDate = 5\<rparr>,
      io_append = (\<lambda>f. None),
      io_list_check = Inr [],
      io_stat = (\<lambda>f. Inl IOError),
      io_now = (\<lambda>f. 0),
      io_list_drain = Inr [],
      io_parse = (\<lambda>l. if l = ''junk'' then Malformed
                       else if l = ''null'' then NonObject else Object l),
      io_events = (\<lambda>f. []),
      io_unlink = (\<lambda>f. None)\<rparr>"

text \<open>
  A world in which the file system fails at every call, and a world in which two buffer
  files are waiting (more than the default limit of one) and the store rejects the one
  record of the file that is drained.
\<close>

definition broken_world :: "string io" where
  "broken_world =
     quiet_world\<lparr>io_append := (\<lambda>f. Some IOError),
                 io_list_check := Inl IOError,
                 io_list_drain := Inl IOError,
                 io_events := (\<lambda>f. [ReadError]),
                 io_unlink := (\<lambda>f. Some IOError)\<rparr>"

definition rejecting_world :: "string io" where
  "rejecting_world =
     quiet_world\<lparr>io_list_check := Inr [''2017-1-4.log'', ''2017-1-5.log''],
                 io_list_drain := Inr [''2017-1-5.log''],
                 io_events := (\<lambda>f. [Line ''r1'', PushFail, End])\<rparr>"

text \<open>
  One buffer file of three records, of which the store rejects the second. In the first
  world the reader hands over the three lines and the end of the file at once, and the
  store answers afterwards; in the second the store answers each push before the next
  line comes.
\<close>

definition burst_world :: "string io" where
  "burst_world =
     quiet_world\<lparr>io_list_drain := Inr [''2017-1-5.log''],
                 io_events := (\<lambda>f. [Line ''r1'', Line ''r2'', Line ''r3'', End,
                                     PushOk, PushFail, PushOk])\<rparr>"

definition lockstep_world :: "string io" where
  "lockstep_world =
     quiet_world\<lparr>io_list_drain := Inr [''2017-1-5.log''],
                 io_events := (\<lambda>f. [Line ''r1'', PushOk, Line ''r2'', PushFail,
                                     Line ''r3'', PushOk, End])\<rparr>"

text \<open>
  One buffer file of three records and a line that does not parse; the store accepts every
  record. In the first world the reader hands over the lines and the end of the file at
  once and the store answers afterwards; in the second the store answers each push before
  the next line comes.
\<close>

definition mixed_world :: "string io" where
  "mixed_world =
     quiet_world\<lparr>io_list_drain := Inr [''2017-1-5.log''],
                 io_events := (\<lambda>f. [Line ''r1'', Line ''junk'', Line ''r2'', Line ''r3'', End,
                                     PushOk, PushOk, PushOk])\<rparr>"

definition mixed_lockstep_world :: "string io" where
  "mixed_lockstep_world =
     quiet_world\<lparr>io_list_drain := Inr [''2017-1-5.log''],
                 io_events := (\<lambda>f. [Line ''r1'', PushOk, Line ''junk'', Line ''r2'', PushOk,
                                     Line ''r3'', PushOk, End])\<rparr>"

text \<open>One buffer file with a record and the line \<open>null\<close>; the store accepts.\<close>

definition null_line_world :: "string io" where
  "null_line_world =
     quiet_world\<lparr>io_list_drain := Inr [''2017-1-5.log''],
                 io_events := (\<lambda>f. [Line ''null'', Line ''r1'', End, PushOk])\<rparr>"

text \<open>A buffer directory with a file of another name between two buffer files.\<close>

definition stray_world :: "string io" where
  "stray_world =
     quiet_world\<lparr>io_list_drain := Inr [''2017-1-5.log'', ''notes.txt'', ''2017-1-6.log''],
                 io_events := (\<lambda>f. [Line ''r1'', End, PushOk])\<rparr>"

text \<open>
  Two buffer files that were created at time 1000: one of 100 bytes, examined at time 2000,
  and one of 20000 bytes, examined at time 3000.
\<close>

definition two_files_world :: "string io" where
  "two_files_world =
     quiet_world\<lparr>io_list_check := Inr [''2017-1-5.log'', ''2017-1-6.log''],
                 io_stat := (\<lambda>f. if f = ''2017-1-5.log''
                                   then Inr \<lparr>size_st = 100, birthtime = 1000\<rparr>
                                   else Inr \<lparr>size_st = 20000, birthtime = 1000\<rparr>),
                 io_now := (\<lambda>f. if f = ''2017-1-5.log'' then 2000 else 3000)\<rparr>"

text \<open>
  Options with every collaborator: the callbacks find no user and no resource, every
  request is logged, and the limits are the default ones.
\<close>

definition demo_opts :: "unit opts" where
  "demo_opts =
     \<lparr>opt_getUserId = Some (\<lambda>c. Inr None),
      opt_getResource = Some (\<lambda>c. Inr None),
      opt_localPath = Some ''data'',
      opt_filter = None,
      opt_dbSaver = Some \<lparr>dbClient = True, collectionName = None\<rparr>,
      opt_strict = [],
      opt_uploadCondition = Some \<lparr>uc_filesLimit = None, uc_fileSizeLimit = None,
                                  uc_fileExpireTime = None, uc_intervalTime = None\<rparr>\<rparr>"

text \<open>
  A place where the saver is built and the buffer directory is created, and one where the
  buffer directory cannot be created.
\<close>

definition fine_env :: construction where
  "fine_env = \<lparr>dirname = ''/app/lib'', new_saver = None, mkdirp = None\<rparr>"

definition readonly_env :: construction where
  "readonly_env = \<lparr>dirname = ''/app/lib'', new_saver = None, mkdirp = Some IOError\<rparr>"

definition demo_engine :: "unit restlog" where
  "demo_engine =
     \<lparr>getUserId = (\<lambda>c. Inr None),
      getResource = (\<lambda>c. Inr None),
      localPath = ''data'',
      filter_cb = None,
      bodySizeLimit = 2048,
      strictObj = [],
      filesLimit = 1,
      fileSizeLimit = 10240,
      fileExpireTime = 10000,
      intervalTime = 10000,
      onSubmitting = False,
      submitting = False\<rparr>"

text \<open>The same with \<open>strict = {resource: true}\<close>.\<close>

definition strict_opts :: "unit opts" where
  "strict_opts = demo_opts\<lparr>opt_strict := [(''resource'', Bool True)]\<rparr>"

definition strict_engine :: "unit restlog" where
  "strict_engine = demo_engine\<lparr>strictObj := [(''resource'', Bool True)]\<rparr>"

text \<open>
  A \<open>GET\<close> request without a body, and a handler that answers 200 with the body \<open>"ok"\<close>.
\<close>

definition demo_ctx :: "unit ctx" where
  "demo_ctx =
     \<lparr>ctx_url = ''/items'', ctx_method = ''GET'', ctx_ip = ''::1'', ctx_userAgent = None,
      ctx_request_body = Falsy, ctx_body = Falsy, ctx_status = 0, ctx_state = ()\<rparr>"

definition demo_next :: "unit ctx \<Rightarrow> exn option \<times> unit ctx" where
  "demo_next c = (None, c\<lparr>ctx_body := Json [CHR 0x22, CHR ''o'', CHR ''k'', CHR 0x22],
                           ctx_status := 200\<rparr>)"

definition failing_next :: "unit ctx \<Rightarrow> exn option \<times> unit ctx" where
  "failing_next c = (Some (Thrown True 403), c)"

definition demo_record :: opt_data where
  "demo_record =
     \<lparr>resource = None, operation = ''get'', ip = ''::1'', status = 1, createdAt = 0,
      originRequest = \<lparr>req_url = ''/items'', req_method = ''get'', req_userAgent = ''unknown'',
                        req_body = Json ''{}''\<rparr>,
      userId = None,
      originResponse = \<lparr>res_statusCode = 200,
                         res_body = Json [CHR 0x22, CHR ''o'', CHR ''k'', CHR 0x22]\<rparr>\<rparr>"



section \<open>The names of the buffer files\<close>

lemmas pattern_defs = name_ok_def matches_def date_re_def seqs_def month_re_def day_re_def
  digit_def opt_def one_of_def any_chr_def

lemmas name_defs = saveLocal_name_def dateFormat_def num_str_def nat_str.simps digit_chr_def

text \<open>A match of a prefix stays a match when the string goes on.\<close>

lemma rmatch_append: "v \<in> set (rmatch r s) \<Longrightarrow> v @ t \<in> set (rmatch r (s @ t))"
proof (induction r s arbitrary: v rule: rmatch.induct)
  case (4 a b s)
  then obtain u where u: "u \<in> set (rmatch a s)" and v: "v \<in> set (rmatch b u)"
    by auto
  from 4(1) [OF u] have "u @ t \<in> set (rmatch a (s @ t))" .
  moreover from 4(2) [OF u v] have "v @ t \<in> set (rmatch b (u @ t))" .
  ultimately show ?case by auto
qed (auto split: if_splits)

lemma matches_Seq: "matches a u \<Longrightarrow> matches b v \<Longrightarrow> matches (Seq a b) (u @ v)"
  using rmatch_append [of "[]" a u v] by (auto simp: matches_def)

lemma matches_Eps: "matches Eps []"
  by (simp add: matches_def)

lemma matches_one_of: "c \<in> set cs \<Longrightarrow> matches (one_of cs) [c]"
  by (simp add: matches_def one_of_def)

lemma matches_digit: "n < 10 \<Longrightarrow> matches digit [digit_chr n]"
proof -
  assume "n < 10"
  then have "digit_chr n \<in> set ''0123456789''"
    unfolding digit_chr_def by (intro nth_mem) simp
  then show ?thesis
    unfolding digit_def by (rule matches_one_of)
qed

text \<open>A number from 1000 to 9999 is written with four digits.\<close>

lemma nat_str_four:
  assumes "1000 \<le> y" and "y < 10000"
  shows "nat_str y = [digit_chr (y div 1000), digit_chr (y div 100 mod 10),
                      digit_chr (y div 10 mod 10), digit_chr (y mod 10)]"
proof -
  have e: "y div 10 div 10 = y div 100" "y div 100 div 10 = y div 1000"
    using div_mult2_eq [of y 10 10] div_mult2_eq [of y 100 10] by simp_all
  have f: "\<not> y < 10" "\<not> y div 10 < 10" "\<not> y div 100 < 10" "y div 1000 < 10"
    using assms by arith+
  have a: "nat_str y = nat_str (y div 10) @ [digit_chr (y mod 10)]"
    using f by (subst nat_str.simps) simp
  have b: "nat_str (y div 10) = nat_str (y div 100) @ [digit_chr (y div 10 mod 10)]"
    using f by (subst nat_str.simps) (simp add: e)
  have c: "nat_str (y div 100) = nat_str (y div 1000) @ [digit_chr (y div 100 mod 10)]"
    using f by (subst nat_str.simps) (simp add: e)
  have d: "nat_str (y div 1000) = [digit_chr (y div 1000)]"
    using f by (subst nat_str.simps) simp
  show ?thesis by (simp add: a b c d)
qed

lemma month_matches: "m < 12 \<Longrightarrow> matches month_re (nat_str (m + 1))"
proof -
  assume "m < 12"
  then have "m = 0 \<or> m = 1 \<or> m = 2 \<or> m = 3 \<or> m = 4 \<or> m = 5 \<or> m = 6 \<or> m = 7 \<or> m = 8
    \<or> m = 9 \<or> m = 10 \<or> m = 11"
    by arith
  then show ?thesis
    by (elim disjE)
      (simp_all add: matches_def month_re_def opt_def one_of_def nat_str.simps digit_chr_def)
qed

lemma day_matches: "1 \<le> d \<Longrightarrow> d \<le> 31 \<Longrightarrow> matches day_re (nat_str d)"
proof -
  assume "1 \<le> d" and "d \<le> 31"
  then have "d = 1 \<or> d = 2 \<or> d = 3 \<or> d = 4 \<or> d = 5 \<or> d = 6 \<or> d = 7 \<or> d = 8 \<or> d = 9
    \<or> d = 10 \<or> d = 11 \<or> d = 12 \<or> d = 13 \<or> d = 14 \<or> d = 15 \<or> d = 16 \<or> d = 17 \<or> d = 18
    \<or> d = 19 \<or> d = 20 \<or> d = 21 \<or> d = 22 \<or> d = 23 \<or> d = 24 \<or> d = 25 \<or> d = 26 \<or> d = 27
    \<or> d = 28 \<or> d = 29 \<or> d = 30 \<or> d = 31"
    by arith
  then show ?thesis
    by (elim disjE)
      (simp_all add: matches_def day_re_def digit_def opt_def one_of_def nat_str.simps
        digit_chr_def)
qed

lemma num_str_int: "num_str (int n) = nat_str n"
  by (simp add: num_str_def)

lemma name_ok_5: "name_ok ''2017-1-5.log''"
  by (simp add: pattern_defs)

text \<open>
  C9, as amended. For every date whose year has four digits (1000 to 9999), the name of the
  buffer file that the append path produces, the local date written as year, month and day
  without padding and followed by \<open>.log\<close>, matches the pattern that makes a file eligible
  for upload. (The month that \<open>getMonth\<close> gives is below 12 and the day that \<open>getDate\<close>
  gives is from 1 to 31, for every date.)
\<close>

theorem saveLocal_name_eligible:
  assumes y: "1000 \<le> getFullYear d" "getFullYear d \<le> 9999"
    and m: "getMonth d < 12"
    and dd: "1 \<le> getDate d" "getDate d \<le> 31"
  shows "name_ok (saveLocal_name d)"
proof -
  define y where "y = nat (getFullYear d)"
  have yb: "1000 \<le> y" "y < 10000"
    using assms by (simp_all add: y_def)
  have ys: "num_str (getFullYear d) = nat_str y"
    using assms by (simp add: num_str_def y_def)
  have y3: "y div 1000 < 10"
    using yb by arith
  have name: "saveLocal_name d =
      [digit_chr (y div 1000)] @ [digit_chr (y div 100 mod 10)] @ [digit_chr (y div 10 mod 10)]
      @ [digit_chr (y mod 10)] @ ''-'' @ nat_str (getMonth d + 1) @ ''-'' @ nat_str (getDate d)
      @ [CHR ''.''] @ [CHR ''l''] @ [CHR ''o''] @ [CHR ''g''] @ []"
    by (simp add: saveLocal_name_def dateFormat_def ys nat_str_four [OF yb] num_str_int
        del: of_nat_Suc of_nat_add)
  have re: "date_re = Seq digit (Seq digit (Seq digit (Seq digit (Seq (one_of ''-'')
      (Seq month_re (Seq (one_of ''-'') (Seq day_re (Seq any_chr (Seq (one_of ''lL'')
      (Seq (one_of ''oO'') (Seq (one_of ''gG'') Eps)))))))))))"
    by (simp add: date_re_def seqs_def)
  have dot: "matches any_chr [CHR ''.'']"
    by (simp add: matches_def any_chr_def)
  show ?thesis
    unfolding name_ok_def name re
    by (intro matches_Seq matches_Eps month_matches [OF m] day_matches [OF dd] dot
        matches_digit y3 matches_one_of) simp_all
qed

theorem saveLocal_name_eligible_witness:
  "name_ok (saveLocal_name \<lparr>getFullYear = 2017, getMonth = 0, getDate = 5\<rparr>)"
  using saveLocal_name_eligible [of "\<lparr>getFullYear = 2017, getMonth = 0, getDate = 5\<rparr>"]
  by simp

text \<open>
  C9 as it is written fails for a year of five digits: on 1 January 10000 the append path
  writes to \<open>10000-1-1.log\<close>, which the pattern refuses.
\<close>

theorem saveLocal_name_year_10000:
  "saveLocal_name \<lparr>getFullYear = 10000, getMonth = 0, getDate = 1\<rparr> = ''10000-1-1.log''
   \<and> \<not> name_ok (saveLocal_name \<lparr>getFullYear = 10000, getMonth = 0, getDate = 1\<rparr>)"
  by (simp add: name_defs pattern_defs)

section \<open>The flush policy\<close>

lemma check_files_all:
  "\<forall>f \<in> set files. io_stat w f = Inr (st f) \<Longrightarrow>
   check_files this w files = Inr (\<exists>f \<in> set files. over_limit this (st f) (io_now w f))"
  by (induction files) (auto simp: over_limit_def)

lemma check_files_first:
  assumes "\<forall>g \<in> set pre. io_stat w g = Inr (st g) \<and> \<not> over_limit this (st g) (io_now w g)"
    and "io_stat w f = Inr (st f)" and "over_limit this (st f) (io_now w f)"
  shows "check_files this w (pre @ f # post) = Inr True"
  using assms by (induction pre) (auto simp: over_limit_def)

lemma shouldFlush_map:
  "shouldFlush this (map (\<lambda>f. (st f, io_now w f)) files) =
   (int (length files) > filesLimit this
    \<or> (\<exists>f \<in> set files. over_limit this (st f) (io_now w f)))"
  by (auto simp: shouldFlush_def over_limit_def)

text \<open>
  C3. When the buffer directory is listed as \<open>files\<close> and every file can be examined,
  \<open>checkStatus\<close> returns true if and only if there are more files than the file-count
  limit, or some file is larger than the size limit, or the age of some file (the clock
  minus its creation time) reaches or exceeds the expiry duration; otherwise it returns
  false, so false is returned only when no listed file is over a limit. It returns true at
  the first file that is over a limit, whatever comes after it in the listing. The limits
  are the ones the engine holds. \<open>checkStatus\<close> gives a result and nothing else: it changes
  neither the engine nor the buffer.
\<close>

theorem checkStatus_shouldFlush:
  assumes "io_list_check w = Inr files"
  shows "((\<forall>f \<in> set files. io_stat w f = Inr (st f)) \<longrightarrow>
            checkStatus this w = Inr (shouldFlush this (map (\<lambda>f. (st f, io_now w f)) files)))
         \<and> (\<forall>pre f post.
              files = pre @ f # post
              \<and> (\<forall>g \<in> set pre. io_stat w g = Inr (st g)
                    \<and> \<not> over_limit this (st g) (io_now w g))
              \<and> io_stat w f = Inr (st f) \<and> over_limit this (st f) (io_now w f)
              \<longrightarrow> checkStatus this w = Inr True)"
proof (intro conjI impI allI)
  assume "\<forall>f \<in> set files. io_stat w f = Inr (st f)"
  then show "checkStatus this w = Inr (shouldFlush this (map (\<lambda>f. (st f, io_now w f)) files))"
    using assms by (simp add: checkStatus_def check_files_all shouldFlush_map)
next
  fix pre f post
  assume "files = pre @ f # post
     \<and> (\<forall>g \<in> set pre. io_stat w g = Inr (st g) \<and> \<not> over_limit this (st g) (io_now w g))
     \<and> io_stat w f = Inr (st f) \<and> over_limit this (st f) (io_now w f)"
  then have "check_files this w files = Inr True"
    using check_files_first [of pre w st this f post] by simp
  then show "checkStatus this w = Inr True"
    using assms by (simp add: checkStatus_def)
qed

theorem checkStatus_shouldFlush_witness:
  "checkStatus (demo_engine\<lparr>filesLimit := 5\<rparr>) two_files_world = Inr True
   \<and> checkStatus (demo_engine\<lparr>filesLimit := 5, fileSizeLimit := 30000\<rparr>) two_files_world
       = Inr False"
  using checkStatus_shouldFlush [of two_files_world "[''2017-1-5.log'', ''2017-1-6.log'']"
      "\<lambda>f. if f = ''2017-1-5.log'' then \<lparr>size_st = 100, birthtime = 1000\<rparr>
           else \<lparr>size_st = 20000, birthtime = 1000\<rparr>" "demo_engine\<lparr>filesLimit := 5\<rparr>"]
    checkStatus_shouldFlush [of two_files_world "[''2017-1-5.log'', ''2017-1-6.log'']"
      "\<lambda>f. if f = ''2017-1-5.log'' then \<lparr>size_st = 100, birthtime = 1000\<rparr>
           else \<lparr>size_st = 20000, birthtime = 1000\<rparr>"
      "demo_engine\<lparr>filesLimit := 5, fileSizeLimit := 30000\<rparr>"]
  by (simp add: two_files_world_def quiet_world_def demo_engine_def shouldFlush_def)

section \<open>The drain\<close>

subsection \<open>One file\<close>

text \<open>
  Whatever happens, the records handed to the store are those of the lines that are not
  empty and that parse to an object, in the order of the lines: an empty line or a line
  that does not parse stops nothing.
\<close>

lemma pushed_foldl: "pushed (foldl (handle parse) r evs) = pushed r @ records_of parse evs"
proof (induction evs arbitrary: r)
  case Nil
  then show ?case by simp
next
  case (Cons ev evs)
  then show ?case
    by (cases ev) (auto simp: resolve_def reject_def split: parsed.splits)
qed

lemma pushed_read_file: "pushed (read_file parse evs) = records_of parse evs"
  by (simp add: read_file_def pushed_foldl)

text \<open>Once the promise is settled, nothing that comes later changes it.\<close>

lemma settled_stays:
  "settled r \<noteq> Pending \<Longrightarrow> settled (foldl (handle parse) r evs) = settled r"
proof (induction evs arbitrary: r)
  case Nil
  then show ?case by simp
next
  case (Cons ev evs)
  have "settled (handle parse r ev) = settled r"
    using Cons.prems by (cases ev) (auto simp: resolve_def reject_def split: parsed.splits)
  then show ?case
    using Cons by simp
qed

lemma resolved_stays:
  "settled r = Resolved \<Longrightarrow> settled (foldl (handle parse) r evs) = Resolved"
  using settled_stays [of r parse evs] by simp

text \<open>The promise is, in the end, what it is when the \<open>await\<close> returns.\<close>

lemma until_settled_settled:
  "settled r = Pending \<Longrightarrow>
   settled (until_settled parse r evs) = settled (foldl (handle parse) r evs)"
proof (induction evs arbitrary: r)
  case Nil
  then show ?case by simp
next
  case (Cons ev evs)
  show ?case
  proof (cases "settled (handle parse r ev) = Pending")
    case True
    then show ?thesis
      using Cons.IH [of "handle parse r ev"] by simp
  next
    case False
    then show ?thesis
      by (simp add: settled_stays)
  qed
qed

lemma settled_at_await:
  "settled (at_await w f) = settled (read_file (io_parse w) (io_events w f))"
  by (simp add: at_await_def read_file_def until_settled_settled)

text \<open>
  The first thing that resolves decides: after lines that are not empty and do not parse to
  something that is not an object, the end of the file, a push that succeeds or an empty
  line resolves the promise for good.
\<close>

lemma first_resolve_wins:
  assumes "\<forall>e \<in> set pre. \<exists>l. e = Line l \<and> l \<noteq> [] \<and> parse l \<noteq> NonObject"
    and "ev = End \<or> ev = PushOk \<or> ev = Line []"
  shows "settled (read_file parse (pre @ ev # post)) = Resolved"
proof -
  have "settled (foldl (handle parse) r pre) = Pending"
    if "settled r = Pending" for r :: "'a reading"
    using assms(1) that
  proof (induction pre arbitrary: r)
    case Nil
    then show ?case by simp
  next
    case (Cons e pre)
    then obtain l where "e = Line l" and "l \<noteq> []" and "parse l \<noteq> NonObject"
      by auto
    then have "settled (handle parse r e) = Pending"
      using Cons.prems(2) by (simp split: parsed.splits)
    then show ?case
      using Cons by simp
  qed
  then have "settled (foldl (handle parse) \<lparr>settled = Pending, pushed = [], acked = 0\<rparr> pre)
      = Pending"
    by simp
  then have "settled (handle parse
      (foldl (handle parse) \<lparr>settled = Pending, pushed = [], acked = 0\<rparr> pre) ev) = Resolved"
    using assms(2) by (auto simp: resolve_def)
  then show ?thesis
    by (simp add: read_file_def resolved_stays)
qed

lemmas drain_defs = local2Remote_def at_await_def read_file_def resolve_def reject_def

text \<open>
  C1. The claim: a buffer file is deleted only after every line of it was forwarded with
  success or left out as unparseable; if the store rejects a record of the file, say the
  second of three, the file is not deleted. The code does not keep this. The promise that
  guards the deletion is resolved by the first thing that resolves it: an empty line, the
  end of the file, or the first push that succeeds; a rejection that comes later is lost.
  With a file of three records of which the store rejects the second, the file is deleted,
  both when the reader hands over all lines at once and when the store answers each push
  before the next line.
\<close>

theorem file_deleted_after_rejected_push:
  "local2Remote burst_world =
     (Returned, \<lparr>deleted = [''2017-1-5.log''],
                 sent = [(''2017-1-5.log'', [''r1'', ''r2'', ''r3''])]\<rparr>)
   \<and> local2Remote lockstep_world =
     (Returned, \<lparr>deleted = [''2017-1-5.log''],
                 sent = [(''2017-1-5.log'', [''r1'', ''r2'', ''r3''])]\<rparr>)"
  by (simp add: drain_defs burst_world_def lockstep_world_def quiet_world_def name_ok_5)

text \<open>
  C4. The claim: empty lines and lines that do not parse are left out without stopping the
  file, and for a file of three records and one line that does not parse the drain delivers
  the three records, leaves out the fourth line, and then deletes the file. The code leaves
  the line out and hands the three records to the store, but it does not wait for their
  delivery before it deletes the file: the promise that guards the deletion is resolved by
  the end of the file or by the first push that succeeds (the defect of C1). When the
  reader hands over all lines at once, the \<open>await\<close> returns, and the file is deleted, with
  three records handed over and none acknowledged; when the store answers each push before
  the next line, with one record handed over and acknowledged, the two others still unread.
\<close>

theorem file_deleted_before_delivery:
  "local2Remote mixed_world =
     (Returned, \<lparr>deleted = [''2017-1-5.log''],
                 sent = [(''2017-1-5.log'', [''r1'', ''r2'', ''r3''])]\<rparr>)
   \<and> settled (at_await mixed_world ''2017-1-5.log'') = Resolved
   \<and> pushed (at_await mixed_world ''2017-1-5.log'') = [''r1'', ''r2'', ''r3'']
   \<and> acked (at_await mixed_world ''2017-1-5.log'') = 0
   \<and> local2Remote mixed_lockstep_world =
     (Returned, \<lparr>deleted = [''2017-1-5.log''],
                 sent = [(''2017-1-5.log'', [''r1'', ''r2'', ''r3''])]\<rparr>)
   \<and> settled (at_await mixed_lockstep_world ''2017-1-5.log'') = Resolved
   \<and> pushed (at_await mixed_lockstep_world ''2017-1-5.log'') = [''r1'']
   \<and> acked (at_await mixed_lockstep_world ''2017-1-5.log'') = 1"
  by (simp add: drain_defs mixed_world_def mixed_lockstep_world_def quiet_world_def name_ok_5)

text \<open>
  A line that parses to something that is not an object rejects the promise: the file is
  kept and the drain throws.
\<close>

lemma null_line_keeps_file:
  "local2Remote null_line_world =
     (Threw TypeError, \<lparr>deleted = [], sent = [(''2017-1-5.log'', [''r1''])]\<rparr>)"
  by (simp add: drain_defs null_line_world_def quiet_world_def name_ok_5)

subsection \<open>The files of a round\<close>

lemma drain_files_stops:
  "\<not> name_ok f \<Longrightarrow> drain_files w (pre @ f # rest) d = drain_files w pre d"
  by (induction pre arbitrary: d) (auto simp: Let_def split: promise.splits option.splits)

lemma drain_files_within:
  "set (deleted (snd (drain_files w files d))) \<subseteq> set (deleted d) \<union> set files
   \<and> fst ` set (sent (snd (drain_files w files d))) \<subseteq> fst ` set (sent d) \<union> set files"
proof (induction files arbitrary: d)
  case Nil
  then show ?case by simp
next
  case (Cons g files)
  show ?case
  proof (cases "name_ok g \<and> settled (at_await w g) = Resolved \<and> io_unlink w g = None")
    case True
    let ?d = "d\<lparr>sent := sent d @ [(g, pushed (read_file (io_parse w) (io_events w g)))],
               deleted := deleted d @ [g]\<rparr>"
    have "drain_files w (g # files) d = drain_files w files ?d"
      using True by (simp add: Let_def)
    then show ?thesis
      using Cons.IH [of ?d] by auto
  next
    case False
    then show ?thesis
      by (auto simp: Let_def split: promise.splits option.splits)
  qed
qed

lemma drain_files_all_fine:
  "\<forall>g \<in> set files. name_ok g \<and> settled (read_file (io_parse w) (io_events w g)) = Resolved
      \<and> io_unlink w g = None \<Longrightarrow>
   drain_files w files d =
     (Returned,
      \<lparr>deleted = deleted d @ files,
       sent = sent d @ map (\<lambda>g. (g, pushed (read_file (io_parse w) (io_events w g)))) files\<rparr>)"
  by (induction files arbitrary: d) (simp_all add: Let_def settled_at_await)

text \<open>
  C5. When the listing of a drain holds a name \<open>f\<close> that does not match the date pattern,
  the drain does what it would do if the listing ended just before \<open>f\<close>: neither \<open>f\<close> nor
  a file listed after it is read or deleted (only files listed before \<open>f\<close> are), and no
  error comes from \<open>f\<close>; when the files before \<open>f\<close> go through, the drain returns
  normally, having deleted exactly them.
\<close>

theorem drain_stops_at_bad_name:
  assumes "io_list_drain w = Inr (pre @ f # rest)" and "\<not> name_ok f"
  shows "local2Remote w = drain_files w pre \<lparr>deleted = [], sent = []\<rparr>
         \<and> set (deleted (snd (local2Remote w))) \<subseteq> set pre
         \<and> fst ` set (sent (snd (local2Remote w))) \<subseteq> set pre
         \<and> ((\<forall>g \<in> set pre. name_ok g
                \<and> settled (read_file (io_parse w) (io_events w g)) = Resolved
                \<and> io_unlink w g = None)
              \<longrightarrow> fst (local2Remote w) = Returned \<and> deleted (snd (local2Remote w)) = pre)"
proof -
  have e: "local2Remote w = drain_files w pre \<lparr>deleted = [], sent = []\<rparr>"
    using assms by (simp add: local2Remote_def drain_files_stops)
  show ?thesis
    unfolding e
    using drain_files_within [of w pre "\<lparr>deleted = [], sent = []\<rparr>"]
    by (auto simp: drain_files_all_fine)
qed

theorem drain_stops_at_bad_name_witness:
  "\<not> name_ok ''notes.txt''
   \<and> local2Remote stray_world =
       (Returned, \<lparr>deleted = [''2017-1-5.log''], sent = [(''2017-1-5.log'', [''r1''])]\<rparr>)"
proof -
  have n: "\<not> name_ok ''notes.txt''"
    by (simp add: pattern_defs)
  have l: "io_list_drain stray_world
      = Inr ([''2017-1-5.log''] @ ''notes.txt'' # [''2017-1-6.log''])"
    by (simp add: stray_world_def)
  show ?thesis
    using drain_stops_at_bad_name [OF l n] n name_ok_5
    by (simp add: stray_world_def quiet_world_def at_await_def read_file_def resolve_def)
qed

section \<open>The flag of submit\<close>

text \<open>No step of a call of \<open>submit\<close> raises the flag that the calls test.\<close>

lemma step_keeps_flag_down: "\<not> onSubmitting (fst cfg) \<Longrightarrow> \<not> onSubmitting (fst (step cfg a))"
  by (cases cfg; cases a)
    (auto simp: submit_start_def submit_flag_def resume_save_def resume_status_def
      resume_drain_def split: option.splits pc.splits sum.splits)

lemma steps_keep_flag_down:
  "\<not> onSubmitting (fst cfg) \<Longrightarrow> \<not> onSubmitting (fst (foldl step cfg acts))"
  by (induction acts arbitrary: cfg) (simp_all add: step_keeps_flag_down)

lemma flag_never_set: "\<not> onSubmitting this \<Longrightarrow> \<not> onSubmitting (fst (run this acts))"
  using steps_keep_flag_down [of "(this, [])" acts] by (simp add: run_def)

text \<open>
  C2. The claim: when the flush policy is true the engine raises the flag before it runs
  the drain, so that a trigger that arrives during a drain sees the flag, returns, and
  starts no second drain. The code does not keep this: \<open>submit\<close> tests \<open>onSubmitting\<close> but
  sets \<open>submitting\<close>, so the flag it tests is never raised. Two ticks of the timer, the
  second while the drain of the first is under way and the policy still true: two drains
  are under way at once.
\<close>

theorem second_drain_starts:
  "draining (run demo_engine [Call None, Checked 0 (Inr True), Call None, Checked 1 (Inr True)])
     = 2"
  by (simp add: draining_def run_def submit_start_def submit_flag_def resume_status_def
      demo_engine_def)

section \<open>The middleware\<close>

lemmas middleware_defs = middleware_koa_def limitBody_def toLowerCase_def lower_chr_def
  caught_def statusCode_def hasOwnProperty_def own_keys_def or_null_def Let_def

lemmas submit_defs = submit_def submit_start_def submit_flag_def resume_save_def
  resume_status_def resume_drain_def submit_check_def saveLocal_def checkStatus_def
  local2Remote_def at_await_def read_file_def resolve_def reject_def

lemmas demo_defs = demo_engine_def demo_ctx_def demo_next_def failing_next_def demo_record_def
  quiet_world_def


text \<open>What is known of a record that the middleware passes to \<open>submit\<close>.\<close>

lemma submitted_recordE:
  assumes "submitted_record (middleware_koa this w now nxt ctx) = Some d"
  obtains reqBody resBody where
    "limitBody (bodySizeLimit this) (ctx_request_body ctx) = Inr reqBody"
    "limitBody (bodySizeLimit this) (ctx_body (snd (nxt ctx))) = Inr resBody"
    "req_body (originRequest d) = reqBody"
    "res_body (originResponse d) = resBody"
    "status d = (if caught (fst (nxt ctx)) then - 1 else 1)"
    "snd (middleware_koa this w now nxt ctx) = Some (d, submit this w (Some d))"
    "fst (middleware_koa this w now nxt ctx)
       = (if caught (fst (nxt ctx)) then fst (nxt ctx) else None)"
  using assms
  by (auto simp: middleware_koa_def submitted_record_def Let_def
      split: sum.splits if_splits option.splits)

lemma constructor_demo: "constructor demo_opts fine_env = Inr demo_engine"
  by (simp add: constructor_def demo_opts_def demo_engine_def fine_env_def or_default_def)

lemma constructor_strict: "constructor strict_opts fine_env = Inr strict_engine"
  by (simp add: constructor_def strict_opts_def strict_engine_def demo_opts_def demo_engine_def
      fine_env_def or_default_def)

lemma demo_submitted:
  "submitted_record (middleware_koa demo_engine quiet_world 0 demo_next demo_ctx)
     = Some demo_record"
  by (simp add: submitted_record_def middleware_defs demo_defs)




text \<open>
  C10. Every record that the middleware passes to \<open>submit\<close>, which is the record that
  \<open>submit\<close> appends to the buffer, has the status -1 or 1 and never the 0 it was given at
  the start of the request: -1 exactly when an error of the downstream handler was caught
  (a truthy thrown value), and 1 otherwise.
\<close>

theorem submitted_status:
  assumes "submitted_record (middleware_koa this w now nxt ctx) = Some d"
  shows "(status d = - 1 \<or> status d = 1) \<and> status d \<noteq> 0
         \<and> (status d = - 1 \<longleftrightarrow> caught (fst (nxt ctx)))
         \<and> (\<forall>a. appended_record (middleware_koa this w now nxt ctx) = Some a \<longrightarrow> snd a = d)"
proof -
  have "snd a = d" if "appended (submit this w (Some d)) = Some a" for a
    using that
    by (auto simp: submit_def submit_start_def saveLocal_def resume_save_def submit_flag_def
        submit_check_def resume_status_def resume_drain_def Let_def
        split: option.splits if_splits sum.splits prod.splits pc.splits)
  then show ?thesis
    using assms by (elim submitted_recordE) (auto simp: appended_record_def)
qed

theorem submitted_status_witness:
  "status demo_record = 1
   \<and> appended_record (middleware_koa demo_engine quiet_world 0 demo_next demo_ctx)
       = Some (''2017-1-5.log'', demo_record)"
  using submitted_status [OF demo_submitted]
  by (simp add: appended_record_def middleware_defs submit_defs demo_defs name_defs)

text \<open>
  The loop over the strictness map looks at the names of the properties only, and the
  finished record has all eight of them: a strict entry for one of them never stops a
  record.
\<close>

lemma strict_return_keys:
  "strict_return so optData = (\<exists>x \<in> set so. snd x = Bool True \<and> fst x \<notin> set own_keys)"
  by (induction so optData rule: strict_return.induct) (auto simp: hasOwnProperty_def)

text \<open>
  C6. The claim: a finished record that lacks a field marked strict is dropped and not
  appended; with \<open>strict = {resource: true}\<close>, an event for which the resource callback
  finds no resource is never appended. The code does not keep this: the record always has
  the property \<open>resource\<close>, with the value \<open>null\<close> when no resource is found, and the
  test asks for the property only. With \<open>strict = {resource: true}\<close> and a callback that
  finds no resource, the record, its resource \<open>null\<close>, is appended to the file of the day.
\<close>

theorem strict_resource_still_appended:
  "strictObj strict_engine = [(''resource'', Bool True)]
   \<and> getResource strict_engine demo_ctx = Inr None
   \<and> resource demo_record = None
   \<and> appended_record (middleware_koa strict_engine quiet_world 0 demo_next demo_ctx)
       = Some (''2017-1-5.log'', demo_record)"
  by (simp add: appended_record_def strict_engine_def middleware_defs submit_defs demo_defs
      name_defs)

text \<open>A call of \<open>submit\<close> changes nothing of the engine but the two flags.\<close>

lemma submit_engine:
  "\<exists>a b. engine (submit this w optData) = this\<lparr>onSubmitting := a, submitting := b\<rparr>"
proof -
  have x: "\<exists>a b. this = this\<lparr>onSubmitting := a, submitting := b\<rparr>"
    by (rule exI [of _ "onSubmitting this"], rule exI [of _ "submitting this"]) simp
  have y: "\<exists>a b. this\<lparr>onSubmitting := False\<rparr> = this\<lparr>onSubmitting := a, submitting := b\<rparr>"
    by (rule exI [of _ False], rule exI [of _ "submitting this"]) simp
  have z: "\<exists>a b. this\<lparr>submitting := True\<rparr> = this\<lparr>onSubmitting := a, submitting := b\<rparr>"
    by (rule exI [of _ "onSubmitting this"], rule exI [of _ True]) simp
  have u: "\<exists>a b. this\<lparr>submitting := True, onSubmitting := False\<rparr>
      = this\<lparr>onSubmitting := a, submitting := b\<rparr>"
    by (rule exI [of _ False], rule exI [of _ True]) simp
  show ?thesis
    using x y z u
    by (auto simp: submit_def submit_start_def resume_save_def submit_flag_def
        submit_check_def resume_status_def resume_drain_def Let_def
        split: option.splits if_splits sum.splits prod.splits pc.splits)
qed

lemma middleware_flags:
  "fst (middleware_koa (this\<lparr>onSubmitting := a, submitting := b\<rparr>) w1 now nxt ctx)
     = fst (middleware_koa this w2 now nxt ctx)"
  unfolding middleware_koa_def Let_def by (auto split: sum.splits option.splits)

text \<open>
  What a call of \<open>submit\<close> does with a failure: the \<open>catch\<close> meets it and logs it, and the
  call is over.
\<close>

lemma submit_append_fails:
  assumes "io_append w (saveLocal_name (io_today w)) = Some e"
  shows "logged (submit this w (Some d)) = Some e \<and> appended (submit this w (Some d)) = None
         \<and> stands (submit this w (Some d)) = Over"
  using assms by (simp add: submit_def submit_start_def saveLocal_def resume_save_def Let_def)

lemma submit_check_fails:
  assumes "\<not> onSubmitting this" and "checkStatus this w = Inl e"
  shows "logged (submit this w None) = Some e \<and> stands (submit this w None) = Over"
  using assms
  by (simp add: submit_def submit_start_def submit_flag_def submit_check_def resume_status_def)

lemma submit_drain_fails:
  assumes "\<not> onSubmitting this" and "checkStatus this w = Inr True"
    and "local2Remote w = (Threw e, dr)"
  shows "logged (submit this w None) = Some e \<and> stands (submit this w None) = Over
         \<and> drain (submit this w None) = Some (Threw e, dr)"
  using assms
  by (simp add: submit_def submit_start_def submit_flag_def submit_check_def resume_status_def
      resume_drain_def)

text \<open>
  C8, as amended. What the caller of the middleware gets, a normal return or the error of
  the downstream handler or of a callback, is the same in every world: whether the append,
  the listing, the reading or the deletion of buffer files, the parsing of a line or the
  remote store fails or not, in this request or in an earlier call of \<open>submit\<close>. A failure
  of the append, of the check of the buffer or of the drain ends in the \<open>catch\<close> of
  \<open>submit\<close>, which logs it, and the call is over. The constructor throws exactly when a
  required collaborator (the user callback, the resource callback, the database client)
  is missing, or the upload condition is \<open>null\<close>, or the saver cannot be built, or the
  buffer directory cannot be created.
\<close>

theorem errors_contained:
  "fst (middleware_koa this w1 now nxt ctx) = fst (middleware_koa this w2 now nxt ctx)
   \<and> fst (middleware_koa (engine (submit this w0 optData)) w1 now nxt ctx)
       = fst (middleware_koa this w2 now nxt ctx)
   \<and> (io_append w0 (saveLocal_name (io_today w0)) = Some e \<longrightarrow>
        logged (submit this w0 (Some d)) = Some e \<and> appended (submit this w0 (Some d)) = None
        \<and> stands (submit this w0 (Some d)) = Over)
   \<and> (\<not> onSubmitting this \<and> checkStatus this w0 = Inl e \<longrightarrow>
        logged (submit this w0 None) = Some e \<and> stands (submit this w0 None) = Over)
   \<and> (\<not> onSubmitting this \<and> checkStatus this w0 = Inr True
        \<and> local2Remote w0 = (Threw e, dr) \<longrightarrow>
        logged (submit this w0 None) = Some e \<and> stands (submit this w0 None) = Over)
   \<and> ((\<exists>x. constructor opts env = Inl x) \<longleftrightarrow>
        collaborator_missing opts \<or> opt_uploadCondition opts = None
        \<or> new_saver env \<noteq> None \<or> mkdirp env \<noteq> None)"
proof (intro conjI impI)
  show "fst (middleware_koa this w1 now nxt ctx) = fst (middleware_koa this w2 now nxt ctx)"
    unfolding middleware_koa_def Let_def by (auto split: sum.splits option.splits)
  obtain a b where "engine (submit this w0 optData) = this\<lparr>onSubmitting := a, submitting := b\<rparr>"
    using submit_engine by blast
  then show "fst (middleware_koa (engine (submit this w0 optData)) w1 now nxt ctx)
       = fst (middleware_koa this w2 now nxt ctx)"
    by (simp add: middleware_flags)
  show "(\<exists>x. constructor opts env = Inl x) \<longleftrightarrow>
        collaborator_missing opts \<or> opt_uploadCondition opts = None
        \<or> new_saver env \<noteq> None \<or> mkdirp env \<noteq> None"
    by (auto simp: constructor_def collaborator_missing_def split: option.splits if_splits)
qed (simp_all add: submit_append_fails submit_check_fails submit_drain_fails)

theorem errors_contained_witness:
  "fst (middleware_koa demo_engine broken_world 0 failing_next demo_ctx) = Some (Thrown True 403)
   \<and> fst (middleware_koa demo_engine quiet_world 0 failing_next demo_ctx) = Some (Thrown True 403)
   \<and> fst (middleware_koa demo_engine rejecting_world 0 demo_next demo_ctx) = None
   \<and> logged (submit demo_engine broken_world (Some demo_record)) = Some IOError
   \<and> appended (submit demo_engine broken_world (Some demo_record)) = None
   \<and> logged (submit demo_engine broken_world None) = Some IOError
   \<and> logged (submit demo_engine rejecting_world None) = Some RemoteError
   \<and> stands (submit demo_engine rejecting_world None) = Over
   \<and> constructor demo_opts fine_env = Inr demo_engine
   \<and> constructor (demo_opts\<lparr>opt_dbSaver := None\<rparr>) fine_env = Inl TypeError"
proof -
  have a: "io_append broken_world (saveLocal_name (io_today broken_world)) = Some IOError"
    by (simp add: broken_world_def quiet_world_def)
  have c: "\<not> onSubmitting demo_engine \<and> checkStatus demo_engine broken_world = Inl IOError"
    by (simp add: checkStatus_def broken_world_def quiet_world_def demo_engine_def)
  have dr: "\<not> onSubmitting demo_engine \<and> checkStatus demo_engine rejecting_world = Inr True
      \<and> local2Remote rejecting_world
          = (Threw RemoteError, \<lparr>deleted = [], sent = [(''2017-1-5.log'', [''r1''])]\<rparr>)"
    by (simp add: checkStatus_def drain_defs rejecting_world_def quiet_world_def demo_engine_def
        name_ok_5)
  show ?thesis
    using errors_contained [of demo_engine broken_world 0 failing_next demo_ctx quiet_world
        broken_world None IOError demo_record
        "\<lparr>deleted = [], sent = [(''2017-1-5.log'', [''r1''])]\<rparr>" demo_opts fine_env]
      errors_contained [of demo_engine rejecting_world 0 demo_next demo_ctx quiet_world
        rejecting_world None RemoteError demo_record
        "\<lparr>deleted = [], sent = [(''2017-1-5.log'', [''r1''])]\<rparr>"
        "demo_opts\<lparr>opt_dbSaver := None\<rparr>" fine_env]
      a c dr constructor_demo
    by (simp add: middleware_defs demo_defs collaborator_missing_def demo_opts_def
        constructor_def fine_env_def)
qed

text \<open>
  C8 as it is written fails where the buffer directory cannot be created: no collaborator is
  missing and the constructor throws.
\<close>

theorem constructor_throws_without_directory:
  "\<not> collaborator_missing demo_opts
   \<and> mkdirp readonly_env = Some IOError
   \<and> constructor demo_opts readonly_env = Inl IOError"
  by (simp add: collaborator_missing_def constructor_def demo_opts_def readonly_env_def)

end
